theory Spec2Isabelle
  imports Complex_Main
begin

section \<open>Data model\<close>

text \<open>
  The module is \<^verbatim>\<open>tensorflow_addons/optimizers/average_wrapper.py\<close>: the class
  \<^verbatim>\<open>AveragedOptimizerWrapper\<close>, a \<^verbatim>\<open>tf.keras.optimizers.Optimizer\<close> that owns a
  wrapped optimizer and keeps an "average" slot for every variable.

  Exceptions are values of \<open>error\<close>; a method that may raise returns \<open>error + 'a\<close>.
\<close>

datatype error =
    TypeError string
  | KeyError string
  | ValueError string
  | NotImplementedError

datatype dtype = Float16 | Float32 | Float64 | Int32 | Int64

type_synonym tensor = "real list"

text \<open>
  A variable object. Python identifies a variable by object identity; here the record is
  the identity (two variable objects differ in their name), and its shape, dtype and
  trainable flag are fixed when it is created.
\<close>

record variable =
  var_name :: string
  var_shape :: "nat list"
  var_dtype :: dtype
  var_trainable :: bool

text \<open>The auxiliary variable that \<^verbatim>\<open>add_slot\<close> creates for a variable and a slot name.\<close>

record slot_var =
  slot_of :: variable
  slot_name :: string
  slot_shape :: "nat list"
  slot_dtype :: dtype

text \<open>
  The entries of a weights list: an iteration counter (by the reference of its cell), a
  slot variable, or a weight that belongs to the wrapped optimizer.
\<close>

datatype weight =
    IterationsWeight nat
  | SlotWeight slot_var
  | OtherWeight string

text \<open>
  The values held by the runtime: the live value of every model variable, the contents
  of every slot variable, and the cells of the iteration counters.
\<close>

record world =
  var_value :: "variable \<Rightarrow> tensor"
  slot_value :: "slot_var \<Rightarrow> tensor"
  counter_value :: "nat \<Rightarrow> int"

text \<open>
  Operations are deferred: a method that "applies" something returns a node of the
  data-flow graph. \<open>Node k deps\<close> is an operation of kind \<open>k\<close> created by the wrapped
  optimizer or by the averaging rule, with control inputs \<open>deps\<close>; \<open>Assign v s\<close> is
  \<^verbatim>\<open>v.assign(s)\<close>; \<open>AssignAdd c n deps\<close> is \<^verbatim>\<open>assign_add(n)\<close> on the counter cell
  \<open>c\<close>; \<open>Group ops\<close> is \<^verbatim>\<open>tf.group\<close>.
\<close>

datatype 'k op =
    Node 'k "'k op list"
  | Assign variable slot_var
  | AssignAdd nat int "'k op list"
  | Group "'k op list"

text \<open>
  The control-dependency scope in force while a node is built:
  \<^verbatim>\<open>with tf.control_dependencies(ops)\<close> extends it for the body of the block.
\<close>

definition control_dependencies :: "'k op list \<Rightarrow> 'k op list \<Rightarrow> 'k op list" where
  "control_dependencies scope ops = scope @ ops"

text \<open>
  The wrapped optimizer: its \<^verbatim>\<open>_iterations\<close> field (a reference to a counter cell,
  \<open>None\<close> until one is set) and the rest of its state, which is opaque.
\<close>

record 'b optimizer =
  opt_iterations :: "nat option"
  opt_state :: 'b

text \<open>
  The capability set of the wrapped optimizer's class: the methods the wrapper calls on
  \<^verbatim>\<open>self._optimizer\<close>. Each may raise.
\<close>

record ('b, 'k) optimizer_class =
  oc_create_slots :: "'b optimizer \<Rightarrow> variable list \<Rightarrow> error + 'b optimizer"
  oc_create_hypers :: "'b optimizer \<Rightarrow> error + 'b optimizer"
  oc_prepare :: "'b optimizer \<Rightarrow> variable list \<Rightarrow> error + 'b optimizer"
  oc_resource_apply_dense ::
    "'b optimizer \<Rightarrow> 'k op list \<Rightarrow> tensor \<Rightarrow> variable \<Rightarrow> error + 'k op"
  oc_resource_apply_sparse ::
    "'b optimizer \<Rightarrow> 'k op list \<Rightarrow> tensor \<Rightarrow> variable \<Rightarrow> nat list \<Rightarrow> error + 'k op"
  oc_resource_apply_sparse_duplicate_indices ::
    "'b optimizer \<Rightarrow> 'k op list \<Rightarrow> tensor \<Rightarrow> variable \<Rightarrow> nat list \<Rightarrow> error + 'k op"
  oc_weights :: "'b optimizer \<Rightarrow> weight list"

text \<open>Python values, as far as constructor arguments and configurations need them.\<close>

datatype 'b pyval =
    PyNone
  | PyBool bool
  | PyInt int
  | PyStr string
  | PyDict "(string \<times> 'b pyval) list"
  | PyOptimizer "'b optimizer"
  | PyObject string

text \<open>
  The tests \<^verbatim>\<open>isinstance(v, tf.keras.optimizers.Optimizer)\<close> and
  \<^verbatim>\<open>isinstance(v, bool)\<close>. The integer 1 is not a \<^verbatim>\<open>bool\<close>.
\<close>

fun is_optimizer :: "'b pyval \<Rightarrow> bool" where
  "is_optimizer (PyOptimizer opt) = True"
| "is_optimizer v = False"

fun is_bool :: "'b pyval \<Rightarrow> bool" where
  "is_bool (PyBool b) = True"
| "is_bool v = False"

text \<open>
  The state every \<^verbatim>\<open>tf.keras.optimizers.Optimizer\<close> has: its name, the counter that
  the \<^verbatim>\<open>iterations\<close> property returns, its own weights list \<^verbatim>\<open>_weights\<close> and its slot
  dictionary, keyed by variable and slot name.
\<close>

record keras_optimizer =
  k_name :: string
  k_iterations :: nat
  k_weights :: "weight list"
  k_slots :: "variable \<times> string \<rightharpoonup> slot_var"

text \<open>The wrapper: the inherited state and the two fields \<^verbatim>\<open>__init__\<close> stores.\<close>

record 'b averaged_optimizer_wrapper = keras_optimizer +
  optimizer :: "'b optimizer"
  sequential_update :: bool

section \<open>Construction\<close>

text \<open>
  \<^verbatim>\<open>__init__(self, optimizer, sequential_update=True, name="AverageOptimizer", **kwargs)\<close>.
  The constructor of the superclass and \<^verbatim>\<open>tf.keras.optimizers.get\<close> belong to the
  framework: they are the parameters \<open>super_init\<close> and \<open>optimizers_get\<close>, and whatever
  they raise propagates. \<open>resolve_optimizer\<close> is the statement
  \<^verbatim>\<open>if isinstance(optimizer, str): optimizer = tf.keras.optimizers.get(optimizer)\<close>.
\<close>

definition resolve_optimizer ::
  "(string \<Rightarrow> error + 'b pyval) \<Rightarrow> 'b pyval \<Rightarrow> error + 'b pyval" where
  "resolve_optimizer optimizers_get optimizer_arg =
     (case optimizer_arg of
        PyStr s \<Rightarrow> optimizers_get s
      | _ \<Rightarrow> Inr optimizer_arg)"

definition init ::
  "('b pyval \<Rightarrow> (string \<rightharpoonup> 'b pyval) \<Rightarrow> error + keras_optimizer) \<Rightarrow>
   (string \<Rightarrow> error + 'b pyval) \<Rightarrow>
   'b pyval \<Rightarrow> 'b pyval \<Rightarrow> 'b pyval \<Rightarrow> (string \<rightharpoonup> 'b pyval) \<Rightarrow>
   error + 'b averaged_optimizer_wrapper" where
  "init super_init optimizers_get optimizer_arg sequential_update_arg name kwargs =
     (case super_init name kwargs of
        Inl e \<Rightarrow> Inl e
      | Inr self \<Rightarrow>
          (case resolve_optimizer optimizers_get optimizer_arg of
             Inl e \<Rightarrow> Inl e
           | Inr resolved \<Rightarrow>
               (case resolved of
                  PyOptimizer opt \<Rightarrow>
                    (case sequential_update_arg of
                       PyBool b \<Rightarrow>
                         Inr \<lparr>k_name = k_name self, k_iterations = k_iterations self,
                              k_weights = k_weights self, k_slots = k_slots self,
                              optimizer = opt, sequential_update = b\<rparr>
                     | _ \<Rightarrow> Inl (TypeError ''sequential_update must be of bool type''))
                | _ \<Rightarrow>
                    Inl (TypeError
                      ''optimizer is not an object of tf.keras.optimizers.Optimizer''))))"

section \<open>Slots\<close>

text \<open>
  The slot variable \<^verbatim>\<open>add_slot\<close> creates for a variable: it has the variable's shape
  and dtype.
\<close>

definition new_slot :: "variable \<Rightarrow> string \<Rightarrow> slot_var" where
  "new_slot var name =
     \<lparr>slot_of = var, slot_name = name, slot_shape = var_shape var, slot_dtype = var_dtype var\<rparr>"

text \<open>
  Modelled from the spec: \<^verbatim>\<open>add_slot\<close>, inherited from
  \<^verbatim>\<open>tf.keras.optimizers.Optimizer\<close>, whose source is not part of this module. A slot is
  keyed by (variable, slot name) and has the shape and dtype of its variable; adding a slot
  that exists neither duplicates nor resets it; a new slot is appended to the optimizer's
  own weights, and its contents start at zero.
\<close>

definition add_slot ::
  "'b averaged_optimizer_wrapper \<Rightarrow> world \<Rightarrow> variable \<Rightarrow> string \<Rightarrow>
   'b averaged_optimizer_wrapper \<times> world" where
  "add_slot self wd var name =
     (case k_slots self (var, name) of
        Some s \<Rightarrow> (self, wd)
      | None \<Rightarrow>
          (let s = new_slot var name
           in (self\<lparr>k_slots := (k_slots self)((var, name) \<mapsto> s),
                    k_weights := k_weights self @ [SlotWeight s]\<rparr>,
               wd\<lparr>slot_value := (slot_value wd)(s := replicate (prod_list (var_shape var)) 0)\<rparr>)))"

text \<open>
  Modelled from the spec: \<^verbatim>\<open>get_slot\<close>, inherited from
  \<^verbatim>\<open>tf.keras.optimizers.Optimizer\<close>, whose source is not part of this module. It
  returns the slot kept under (variable, slot name); for a slot that was never added the
  lookup fails.
\<close>

definition get_slot ::
  "'b averaged_optimizer_wrapper \<Rightarrow> variable \<Rightarrow> string \<Rightarrow> error + slot_var" where
  "get_slot self var name =
     (case k_slots self (var, name) of
        None \<Rightarrow> Inl (KeyError name)
      | Some s \<Rightarrow> Inr s)"

text \<open>The loop \<^verbatim>\<open>for var in var_list: self.add_slot(var, 'average')\<close>.\<close>

fun add_average_slots ::
  "'b averaged_optimizer_wrapper \<Rightarrow> world \<Rightarrow> variable list \<Rightarrow>
   'b averaged_optimizer_wrapper \<times> world" where
  "add_average_slots self wd [] = (self, wd)"
| "add_average_slots self wd (var # var_list) =
     (case add_slot self wd var ''average'' of
        (self', wd') \<Rightarrow> add_average_slots self' wd' var_list)"

text \<open>\<^verbatim>\<open>_create_slots(self, var_list)\<close>.\<close>

definition create_slots ::
  "('b, 'k) optimizer_class \<Rightarrow> 'b averaged_optimizer_wrapper \<Rightarrow> world \<Rightarrow> variable list \<Rightarrow>
   error + 'b averaged_optimizer_wrapper \<times> world" where
  "create_slots cls self wd var_list =
     (case oc_create_slots cls (optimizer self) var_list of
        Inl e \<Rightarrow> Inl e
      | Inr opt \<Rightarrow> Inr (add_average_slots (self\<lparr>optimizer := opt\<rparr>) wd var_list))"

text \<open>\<^verbatim>\<open>_create_hypers(self)\<close> and \<^verbatim>\<open>_prepare(self, var_list)\<close>.\<close>

definition create_hypers ::
  "('b, 'k) optimizer_class \<Rightarrow> 'b averaged_optimizer_wrapper \<Rightarrow>
   error + 'b averaged_optimizer_wrapper" where
  "create_hypers cls self =
     (case oc_create_hypers cls (optimizer self) of
        Inl e \<Rightarrow> Inl e
      | Inr opt \<Rightarrow> Inr (self\<lparr>optimizer := opt\<rparr>))"

definition prepare ::
  "('b, 'k) optimizer_class \<Rightarrow> 'b averaged_optimizer_wrapper \<Rightarrow> variable list \<Rightarrow>
   error + 'b averaged_optimizer_wrapper" where
  "prepare cls self var_list =
     (case oc_prepare cls (optimizer self) var_list of
        Inl e \<Rightarrow> Inl e
      | Inr opt \<Rightarrow> Inr (self\<lparr>optimizer := opt\<rparr>))"

section \<open>Applying a gradient\<close>

text \<open>
  \<^verbatim>\<open>average_op(self, var, average_var)\<close> is abstract: the averaging rule of a subclass
  is the parameter \<open>average_op\<close>. It builds its operation in the control-dependency scope
  it is called in, which is its first argument.

  \<^verbatim>\<open>_apply_average_op(self, train_op, var)\<close>:
\<close>

definition apply_average_op ::
  "('k op list \<Rightarrow> variable \<Rightarrow> slot_var \<Rightarrow> error + 'k op) \<Rightarrow>
   'b averaged_optimizer_wrapper \<Rightarrow> 'k op list \<Rightarrow> 'k op \<Rightarrow> variable \<Rightarrow> error + 'k op" where
  "apply_average_op average_op self scope train_op var =
     (case get_slot self var ''average'' of
        Inl e \<Rightarrow> Inl e
      | Inr average_var \<Rightarrow>
          (if sequential_update self
           then average_op (control_dependencies scope [train_op]) var average_var
           else average_op scope var average_var))"

text \<open>\<^verbatim>\<open>_resource_apply_dense(self, grad, var)\<close>.\<close>

definition resource_apply_dense ::
  "('b, 'k) optimizer_class \<Rightarrow> ('k op list \<Rightarrow> variable \<Rightarrow> slot_var \<Rightarrow> error + 'k op) \<Rightarrow>
   'b averaged_optimizer_wrapper \<Rightarrow> 'k op list \<Rightarrow> tensor \<Rightarrow> variable \<Rightarrow> error + 'k op" where
  "resource_apply_dense cls average_op self scope grad var =
     (case oc_resource_apply_dense cls (optimizer self) scope grad var of
        Inl e \<Rightarrow> Inl e
      | Inr train_op \<Rightarrow>
          (case apply_average_op average_op self scope train_op var of
             Inl e \<Rightarrow> Inl e
           | Inr average_op' \<Rightarrow> Inr (Group [train_op, average_op'])))"

text \<open>\<^verbatim>\<open>_resource_apply_sparse(self, grad, var, indices)\<close>.\<close>

definition resource_apply_sparse ::
  "('b, 'k) optimizer_class \<Rightarrow> ('k op list \<Rightarrow> variable \<Rightarrow> slot_var \<Rightarrow> error + 'k op) \<Rightarrow>
   'b averaged_optimizer_wrapper \<Rightarrow> 'k op list \<Rightarrow> tensor \<Rightarrow> variable \<Rightarrow> nat list \<Rightarrow>
   error + 'k op" where
  "resource_apply_sparse cls average_op self scope grad var indices =
     (case oc_resource_apply_sparse cls (optimizer self) scope grad var indices of
        Inl e \<Rightarrow> Inl e
      | Inr train_op \<Rightarrow>
          (case apply_average_op average_op self scope train_op var of
             Inl e \<Rightarrow> Inl e
           | Inr average_op' \<Rightarrow> Inr (Group [train_op, average_op'])))"

text \<open>\<^verbatim>\<open>_resource_apply_sparse_duplicate_indices(self, grad, var, indices)\<close>.\<close>

definition resource_apply_sparse_duplicate_indices ::
  "('b, 'k) optimizer_class \<Rightarrow> ('k op list \<Rightarrow> variable \<Rightarrow> slot_var \<Rightarrow> error + 'k op) \<Rightarrow>
   'b averaged_optimizer_wrapper \<Rightarrow> 'k op list \<Rightarrow> tensor \<Rightarrow> variable \<Rightarrow> nat list \<Rightarrow>
   error + 'k op" where
  "resource_apply_sparse_duplicate_indices cls average_op self scope grad var indices =
     (case oc_resource_apply_sparse_duplicate_indices cls (optimizer self) scope grad var
             indices of
        Inl e \<Rightarrow> Inl e
      | Inr train_op \<Rightarrow>
          (case apply_average_op average_op self scope train_op var of
             Inl e \<Rightarrow> Inl e
           | Inr average_op' \<Rightarrow> Inr (Group [train_op, average_op'])))"

text \<open>The control inputs a node was built with.\<close>

fun control_inputs :: "'k op \<Rightarrow> 'k op list" where
  "control_inputs (Node k deps) = deps"
| "control_inputs (AssignAdd c n deps) = deps"
| "control_inputs (Assign v s) = []"
| "control_inputs (Group ops) = []"

section \<open>Applying gradients\<close>

text \<open>
  A gradient is dense, sparse, or sparse with possibly repeated indices; its kind selects
  the handler.
\<close>

datatype gradient =
    DenseGrad tensor
  | SparseGrad tensor "nat list"
  | SparseDupGrad tensor "nat list"

text \<open>
  Modelled from the spec: the dispatch inside the \<^verbatim>\<open>apply_gradients\<close> of the
  superclass \<^verbatim>\<open>tf.keras.optimizers.Optimizer\<close>, whose source is not part of this
  module. Each pair goes to the dense or sparse handler of the object, here the wrapper's.
\<close>

definition dispatch ::
  "('b, 'k) optimizer_class \<Rightarrow> ('k op list \<Rightarrow> variable \<Rightarrow> slot_var \<Rightarrow> error + 'k op) \<Rightarrow>
   'b averaged_optimizer_wrapper \<Rightarrow> 'k op list \<Rightarrow> gradient \<times> variable \<Rightarrow> error + 'k op" where
  "dispatch cls average_op self scope gv =
     (case gv of
        (DenseGrad g, var) \<Rightarrow> resource_apply_dense cls average_op self scope g var
      | (SparseGrad g indices, var) \<Rightarrow>
          resource_apply_sparse cls average_op self scope g var indices
      | (SparseDupGrad g indices, var) \<Rightarrow>
          resource_apply_sparse_duplicate_indices cls average_op self scope g var indices)"

text \<open>
  Modelled from the spec: the iteration over the pairs inside the superclass's
  \<^verbatim>\<open>apply_gradients\<close>; a failure of a handler propagates.
\<close>

fun update_ops ::
  "('b, 'k) optimizer_class \<Rightarrow> ('k op list \<Rightarrow> variable \<Rightarrow> slot_var \<Rightarrow> error + 'k op) \<Rightarrow>
   'b averaged_optimizer_wrapper \<Rightarrow> 'k op list \<Rightarrow> (gradient \<times> variable) list \<Rightarrow>
   error + 'k op list" where
  "update_ops cls average_op self scope [] = Inr []"
| "update_ops cls average_op self scope (gv # grads_and_vars) =
     (case dispatch cls average_op self scope gv of
        Inl e \<Rightarrow> Inl e
      | Inr u \<Rightarrow>
          (case update_ops cls average_op self scope grads_and_vars of
             Inl e \<Rightarrow> Inl e
           | Inr us \<Rightarrow> Inr (u # us)))"

text \<open>
  Modelled from the spec: the \<^verbatim>\<open>apply_gradients\<close> of the superclass
  \<^verbatim>\<open>tf.keras.optimizers.Optimizer\<close>, whose source is not part of this module. It
  iterates over the pairs, dispatching each to its handler, and increments the object's
  iteration counter once, after the updates; what it returns is that combined operation.
\<close>

definition super_apply_gradients ::
  "('b, 'k) optimizer_class \<Rightarrow> ('k op list \<Rightarrow> variable \<Rightarrow> slot_var \<Rightarrow> error + 'k op) \<Rightarrow>
   'b averaged_optimizer_wrapper \<Rightarrow> 'k op list \<Rightarrow> (gradient \<times> variable) list \<Rightarrow>
   error + 'k op" where
  "super_apply_gradients cls average_op self scope grads_and_vars =
     (case update_ops cls average_op self scope grads_and_vars of
        Inl e \<Rightarrow> Inl e
      | Inr us \<Rightarrow> Inr (AssignAdd (k_iterations self) 1 (control_dependencies scope us)))"

text \<open>
  \<^verbatim>\<open>apply_gradients(self, grads_and_vars, name=None)\<close>. The assignment
  \<^verbatim>\<open>self._optimizer._iterations = self.iterations\<close> stores a reference: afterwards the
  wrapped optimizer's field denotes the wrapper's own counter cell. The assignment has been
  made whether the superclass's method then returns an operation or raises, so the wrapper
  as the assignment left it is returned on both paths, beside the operation or the error.
  (\<^verbatim>\<open>name\<close> only labels the operation.)
\<close>

definition apply_gradients ::
  "('b, 'k) optimizer_class \<Rightarrow> ('k op list \<Rightarrow> variable \<Rightarrow> slot_var \<Rightarrow> error + 'k op) \<Rightarrow>
   'b averaged_optimizer_wrapper \<Rightarrow> 'k op list \<Rightarrow> (gradient \<times> variable) list \<Rightarrow>
   (error + 'k op) \<times> 'b averaged_optimizer_wrapper" where
  "apply_gradients cls average_op self scope grads_and_vars =
     (let self' = self\<lparr>optimizer := (optimizer self)\<lparr>opt_iterations := Some (k_iterations self)\<rparr>\<rparr>
      in (super_apply_gradients cls average_op self' scope grads_and_vars, self'))"

text \<open>The value of the wrapper's counter, and of the wrapped optimizer's, in a world.\<close>

definition wrapper_count :: "world \<Rightarrow> 'b averaged_optimizer_wrapper \<Rightarrow> int option" where
  "wrapper_count wd self = Some (counter_value wd (k_iterations self))"

definition optimizer_count :: "world \<Rightarrow> 'b averaged_optimizer_wrapper \<Rightarrow> int option" where
  "optimizer_count wd self =
     (case opt_iterations (optimizer self) of
        None \<Rightarrow> None
      | Some c \<Rightarrow> Some (counter_value wd c))"

section \<open>Assigning the averages\<close>

text \<open>
  The comprehension
  \<^verbatim>\<open>[var.assign(self.get_slot(var, 'average')) for var in var_list if var.trainable]\<close>:
  the filter is tested first, so \<^verbatim>\<open>get_slot\<close> is evaluated for trainable variables
  only.
\<close>

fun assign_ops ::
  "'b averaged_optimizer_wrapper \<Rightarrow> variable list \<Rightarrow> error + 'k op list" where
  "assign_ops self [] = Inr []"
| "assign_ops self (var # var_list) =
     (if var_trainable var
      then (case get_slot self var ''average'' of
              Inl e \<Rightarrow> Inl e
            | Inr average_var \<Rightarrow>
                (case assign_ops self var_list of
                   Inl e \<Rightarrow> Inl e
                 | Inr ops \<Rightarrow> Inr (Assign var average_var # ops)))
      else assign_ops self var_list)"

text \<open>\<^verbatim>\<open>assign_average_vars(self, var_list)\<close>.\<close>

definition assign_average_vars ::
  "'b averaged_optimizer_wrapper \<Rightarrow> variable list \<Rightarrow> error + 'k op" where
  "assign_average_vars self var_list =
     (case assign_ops self var_list of
        Inl e \<Rightarrow> Inl e
      | Inr ops \<Rightarrow> Inr (Group ops))"

text \<open>
  Modelled from the spec: running an operation, which is the execution engine's work. An
  assignment overwrites the live value of the variable with the current contents of the
  slot, and a group runs its members. The effect of a node of the wrapped optimizer or of
  the averaging rule, and of the counter increment, is not defined here (\<open>None\<close>).
\<close>

fun run_op :: "'k op \<Rightarrow> world \<Rightarrow> world option"
  and run_ops :: "'k op list \<Rightarrow> world \<Rightarrow> world option" where
  "run_op (Assign v s) wd = Some (wd\<lparr>var_value := (var_value wd)(v := slot_value wd s)\<rparr>)"
| "run_op (Group ops) wd = run_ops ops wd"
| "run_op (Node k deps) wd = None"
| "run_op (AssignAdd c n deps) wd = None"
| "run_ops [] wd = Some wd"
| "run_ops (x # xs) wd =
     (case run_op x wd of
        None \<Rightarrow> None
      | Some wd' \<Rightarrow> run_ops xs wd')"

section \<open>Configuration\<close>

text \<open>
  \<^verbatim>\<open>get_config(self)\<close>. A dictionary is a map; \<^verbatim>\<open>dict(list(a.items()) + list(b.items()))\<close>
  is \<open>a ++ b\<close>, the entries of \<open>b\<close> winning. \<^verbatim>\<open>tf.keras.optimizers.serialize\<close> and the
  superclass's \<^verbatim>\<open>get_config\<close> are the parameters \<open>serialize\<close> and \<open>super_get_config\<close>.
\<close>

definition get_config ::
  "('b optimizer \<Rightarrow> 'b pyval) \<Rightarrow>
   ('b averaged_optimizer_wrapper \<Rightarrow> (string \<rightharpoonup> 'b pyval)) \<Rightarrow>
   'b averaged_optimizer_wrapper \<Rightarrow> (string \<rightharpoonup> 'b pyval)" where
  "get_config serialize super_get_config self =
     (let config = [''optimizer'' \<mapsto> serialize (optimizer self),
                    ''sequential_update'' \<mapsto> PyBool (sequential_update self)];
          base_config = super_get_config self
      in base_config ++ config)"

text \<open>
  The call \<^verbatim>\<open>cls(optimizer, **config)\<close>: the keys \<^verbatim>\<open>sequential_update\<close> and
  \<^verbatim>\<open>name\<close> bind the parameters of that name (with their defaults when absent), the
  other keys are the extra keyword arguments.
\<close>

definition call_cls ::
  "('b pyval \<Rightarrow> (string \<rightharpoonup> 'b pyval) \<Rightarrow> error + keras_optimizer) \<Rightarrow>
   (string \<Rightarrow> error + 'b pyval) \<Rightarrow>
   'b pyval \<Rightarrow> (string \<rightharpoonup> 'b pyval) \<Rightarrow> error + 'b averaged_optimizer_wrapper" where
  "call_cls super_init optimizers_get optimizer_arg config =
     init super_init optimizers_get optimizer_arg
       (case config ''sequential_update'' of None \<Rightarrow> PyBool True | Some v \<Rightarrow> v)
       (case config ''name'' of None \<Rightarrow> PyStr ''AverageOptimizer'' | Some v \<Rightarrow> v)
       (config |` (- {''sequential_update'', ''name''}))"

text \<open>
  \<^verbatim>\<open>from_config(cls, config, custom_objects=None)\<close>. \<^verbatim>\<open>config.pop\<close> changes the
  caller's dictionary, so the dictionary as the call leaves it is returned with the result.
  \<^verbatim>\<open>tf.keras.optimizers.deserialize\<close> is the parameter \<open>deserialize\<close>.
\<close>

definition from_config ::
  "('b pyval \<Rightarrow> (string \<rightharpoonup> 'b pyval) \<Rightarrow> error + keras_optimizer) \<Rightarrow>
   (string \<Rightarrow> error + 'b pyval) \<Rightarrow>
   ('b pyval \<Rightarrow> 'c \<Rightarrow> error + 'b pyval) \<Rightarrow>
   (string \<rightharpoonup> 'b pyval) \<Rightarrow> 'c \<Rightarrow>
   (string \<rightharpoonup> 'b pyval) \<times> (error + 'b averaged_optimizer_wrapper)" where
  "from_config super_init optimizers_get deserialize config custom_objects =
     (case config ''optimizer'' of
        None \<Rightarrow> (config, Inl (KeyError ''optimizer''))
      | Some nested \<Rightarrow>
          (let config' = config(''optimizer'' := None)
           in (config',
               case deserialize nested custom_objects of
                 Inl e \<Rightarrow> Inl e
               | Inr optimizer_arg \<Rightarrow> call_cls super_init optimizers_get optimizer_arg config')))"

section \<open>Weights\<close>

text \<open>The property \<^verbatim>\<open>weights\<close>: \<^verbatim>\<open>self._weights + self._optimizer.weights\<close>.\<close>

definition weights ::
  "('b, 'k) optimizer_class \<Rightarrow> 'b averaged_optimizer_wrapper \<Rightarrow> weight list" where
  "weights cls self = k_weights self @ oc_weights cls (optimizer self)"

section \<open>Well-formed slot dictionaries\<close>

text \<open>
  What \<^verbatim>\<open>add_slot\<close> maintains: every slot in the dictionary is the slot of its key, with
  the shape and dtype of its variable, and the wrapper's own weights list holds each slot of
  the dictionary once and no other slot.
\<close>

definition slots_wf :: "'b averaged_optimizer_wrapper \<Rightarrow> bool" where
  "slots_wf self \<longleftrightarrow>
     (\<forall>var name s. k_slots self (var, name) = Some s \<longrightarrow> s = new_slot var name) \<and>
     (\<forall>s. count_list (k_weights self) (SlotWeight s) =
            (if k_slots self (slot_of s, slot_name s) = Some s then 1 else 0))"

section \<open>A small instance\<close>

text \<open>
  A framework and a wrapped optimizer to run the definitions on: a registry that knows the
  name \<^verbatim>\<open>sgd\<close> and reports any other name as unknown; a superclass constructor that
  wants a string for the name; a wrapped optimizer whose handlers build one node each; an
  averaging rule that builds one node in the scope it is called in.
\<close>

definition ex_sgd :: "unit optimizer" where
  "ex_sgd = \<lparr>opt_iterations = None, opt_state = ()\<rparr>"

definition ex_used_sgd :: "unit optimizer" where
  "ex_used_sgd = \<lparr>opt_iterations = Some 1, opt_state = ()\<rparr>"

definition ex_optimizers_get :: "string \<Rightarrow> error + unit pyval" where
  "ex_optimizers_get s =
     (if s = ''sgd'' then Inr (PyOptimizer ex_sgd) else Inl (ValueError ''Unknown optimizer''))"

definition ex_keras :: "string \<Rightarrow> keras_optimizer" where
  "ex_keras n =
     \<lparr>k_name = n, k_iterations = 0, k_weights = [IterationsWeight 0], k_slots = Map.empty\<rparr>"

definition ex_super_init ::
  "unit pyval \<Rightarrow> (string \<rightharpoonup> unit pyval) \<Rightarrow> error + keras_optimizer" where
  "ex_super_init name kwargs =
     (case name of
        PyStr n \<Rightarrow> Inr (ex_keras n)
      | _ \<Rightarrow> Inl (TypeError ''name must be a string''))"

definition ex_super_get_config ::
  "unit averaged_optimizer_wrapper \<Rightarrow> (string \<rightharpoonup> unit pyval)" where
  "ex_super_get_config self = [''name'' \<mapsto> PyStr (k_name self)]"

definition ex_serialize :: "unit optimizer \<Rightarrow> unit pyval" where
  "ex_serialize opt = PyDict [(''class_name'', PyStr ''SGD'')]"

definition ex_deserialize :: "unit pyval \<Rightarrow> unit \<Rightarrow> error + unit pyval" where
  "ex_deserialize c custom_objects =
     (if c = PyDict [(''class_name'', PyStr ''SGD'')]
      then Inr (PyOptimizer ex_sgd)
      else Inl (ValueError ''Unknown optimizer''))"

definition ex_class :: "(unit, string) optimizer_class" where
  "ex_class =
     \<lparr>oc_create_slots = (\<lambda>opt var_list. Inr opt),
      oc_create_hypers = (\<lambda>opt. Inr opt),
      oc_prepare = (\<lambda>opt var_list. Inr opt),
      oc_resource_apply_dense = (\<lambda>opt scope grad var. Inr (Node ''train_dense'' scope)),
      oc_resource_apply_sparse =
        (\<lambda>opt scope grad var indices. Inr (Node ''train_sparse'' scope)),
      oc_resource_apply_sparse_duplicate_indices =
        (\<lambda>opt scope grad var indices. Inr (Node ''train_sparse_dup'' scope)),
      oc_weights = (\<lambda>opt. [OtherWeight ''momentum''])\<rparr>"

definition ex_average_op ::
  "string op list \<Rightarrow> variable \<Rightarrow> slot_var \<Rightarrow> error + string op" where
  "ex_average_op scope var average_var = Inr (Node ''average'' scope)"

definition ex_var :: variable where
  "ex_var = \<lparr>var_name = ''kernel'', var_shape = [2], var_dtype = Float32, var_trainable = True\<rparr>"

definition ex_frozen :: variable where
  "ex_frozen =
     \<lparr>var_name = ''moving_mean'', var_shape = [1], var_dtype = Float32, var_trainable = False\<rparr>"

definition ex_wrapper :: "bool \<Rightarrow> unit averaged_optimizer_wrapper" where
  "ex_wrapper s =
     \<lparr>k_name = ''AverageOptimizer'', k_iterations = 0, k_weights = [IterationsWeight 0],
      k_slots = Map.empty, optimizer = ex_sgd, sequential_update = s\<rparr>"

definition ex_slotted :: "bool \<Rightarrow> unit averaged_optimizer_wrapper" where
  "ex_slotted s =
     \<lparr>k_name = ''AverageOptimizer'', k_iterations = 0,
      k_weights = [IterationsWeight 0, SlotWeight (new_slot ex_var ''average'')],
      k_slots = [(ex_var, ''average'') \<mapsto> new_slot ex_var ''average''],
      optimizer = ex_sgd, sequential_update = s\<rparr>"

definition ex_world :: world where
  "ex_world =
     \<lparr>var_value = (\<lambda>v. if v = ex_var then [98 / 10, 1] else [0]),
      slot_value = (\<lambda>s. if s = new_slot ex_var ''average'' then [99 / 10, 2] else [0]),
      counter_value = (\<lambda>c. if c = 1 then 5 else 0)\<rparr>"

definition ex_rewrapper :: "unit averaged_optimizer_wrapper" where
  "ex_rewrapper = (ex_slotted True)\<lparr>optimizer := ex_used_sgd\<rparr>"

text \<open>
  A wrapped optimizer whose dense handler reads its counter field while it builds the train
  update: the node is labelled with the cell the field denotes.
\<close>

definition ex_reading_class :: "(unit, string) optimizer_class" where
  "ex_reading_class =
     ex_class\<lparr>oc_resource_apply_dense :=
       (\<lambda>opt scope grad var.
          Inr (Node (case opt_iterations opt of
                       None \<Rightarrow> ''train_without_counter''
                     | Some c \<Rightarrow> if c = 0 then ''train_at_cell_0'' else ''train_at_other_cell'')
                 scope))\<rparr>"

definition ex_synced :: "unit averaged_optimizer_wrapper" where
  "ex_synced = ex_rewrapper\<lparr>optimizer := \<lparr>opt_iterations = Some 0, opt_state = ()\<rparr>\<rparr>"

definition ex_unslotted :: "unit averaged_optimizer_wrapper" where
  "ex_unslotted = (ex_wrapper True)\<lparr>optimizer := ex_used_sgd\<rparr>"

section \<open>Construction: what is stored, and how it fails\<close>

text \<open>
  C7. For every optimizer instance \<open>opt\<close> and every boolean \<open>s\<close>, constructing a wrapper
  from them (the superclass constructor accepting the name and the extra options) yields a
  wrapper whose \<open>optimizer\<close> is exactly \<open>opt\<close> and whose \<open>sequential_update\<close> is exactly
  \<open>s\<close>.
\<close>

theorem init_stores_arguments:
  assumes "super_init name kwargs = Inr k"
  shows "\<exists>w. init super_init optimizers_get (PyOptimizer opt) (PyBool s) name kwargs = Inr w
           \<and> optimizer w = opt \<and> sequential_update w = s"
  using assms by (simp add: init_def resolve_optimizer_def)

theorem init_stores_arguments_witness:
  "ex_super_init (PyStr ''AverageOptimizer'') Map.empty = Inr (ex_keras ''AverageOptimizer'') \<and>
   (\<exists>w. init ex_super_init ex_optimizers_get (PyOptimizer ex_used_sgd) (PyBool False)
           (PyStr ''AverageOptimizer'') Map.empty = Inr w
         \<and> optimizer w = ex_used_sgd \<and> sequential_update w = False)"
proof -
  have h: "ex_super_init (PyStr ''AverageOptimizer'') Map.empty
             = Inr (ex_keras ''AverageOptimizer'')"
    by (simp add: ex_super_init_def)
  show ?thesis
    using h init_stores_arguments [where super_init = ex_super_init
        and name = "PyStr ''AverageOptimizer''" and kwargs = Map.empty
        and k = "ex_keras ''AverageOptimizer''" and optimizers_get = ex_optimizers_get
        and opt = ex_used_sgd and s = False]
    by simp
qed

text \<open>
  C2, as stated, says that a string the registry does not know makes construction fail
  with a type error. The constructor raises no error of its own there: the registry's error
  propagates. With a registry that reports an unknown name as a value error, construction
  from the unknown name \<^verbatim>\<open>nope\<close> fails with that value error, not with a type error.
\<close>

theorem init_unknown_name_counterexample:
  "init ex_super_init ex_optimizers_get (PyStr ''nope'') (PyBool True)
     (PyStr ''AverageOptimizer'') Map.empty = Inl (ValueError ''Unknown optimizer'')"
  by (simp add: init_def resolve_optimizer_def ex_super_init_def ex_optimizers_get_def)

text \<open>
  C2, amended. Once the superclass constructor has accepted the name and the extra
  options: if resolving the optimizer argument through the registry raises, construction
  fails with the registry's own error; if the resolved value is not an optimizer instance,
  it fails with the type error about the optimizer; if it is one and the flag is not a
  boolean, it fails with the type error about the flag; and for an optimizer instance and
  a boolean flag it succeeds. A failure is a result \<open>Inl\<close>: there is no object.
\<close>

theorem init_outcomes:
  assumes "super_init name kwargs = Inr k"
  shows "(\<forall>e. resolve_optimizer optimizers_get optimizer_arg = Inl e \<longrightarrow>
            init super_init optimizers_get optimizer_arg flag name kwargs = Inl e)
       \<and> (\<forall>r. resolve_optimizer optimizers_get optimizer_arg = Inr r \<and> \<not> is_optimizer r \<longrightarrow>
            init super_init optimizers_get optimizer_arg flag name kwargs =
              Inl (TypeError ''optimizer is not an object of tf.keras.optimizers.Optimizer''))
       \<and> (\<forall>r. resolve_optimizer optimizers_get optimizer_arg = Inr r \<and> is_optimizer r
              \<and> \<not> is_bool flag \<longrightarrow>
            init super_init optimizers_get optimizer_arg flag name kwargs =
              Inl (TypeError ''sequential_update must be of bool type''))
       \<and> (\<forall>r. resolve_optimizer optimizers_get optimizer_arg = Inr r \<and> is_optimizer r
              \<and> is_bool flag \<longrightarrow>
            (\<exists>w. init super_init optimizers_get optimizer_arg flag name kwargs = Inr w))"
  using assms
  apply (simp add: init_def)
  apply (intro conjI allI impI)
    apply (case_tac r; simp)
   apply (case_tac r; simp; case_tac flag; simp)
  apply (case_tac r; simp; case_tac flag; simp)
  done

theorem init_outcomes_witness:
  "ex_super_init (PyStr ''AverageOptimizer'') Map.empty = Inr (ex_keras ''AverageOptimizer'')
   \<and> resolve_optimizer ex_optimizers_get (PyStr ''adamm'') = Inl (ValueError ''Unknown optimizer'')
   \<and> init ex_super_init ex_optimizers_get (PyStr ''adamm'') (PyBool True)
       (PyStr ''AverageOptimizer'') Map.empty = Inl (ValueError ''Unknown optimizer'')
   \<and> resolve_optimizer ex_optimizers_get (PyInt 3) = Inr (PyInt 3)
   \<and> \<not> is_optimizer (PyInt 3 :: unit pyval)
   \<and> init ex_super_init ex_optimizers_get (PyInt 3) (PyBool True)
       (PyStr ''AverageOptimizer'') Map.empty
       = Inl (TypeError ''optimizer is not an object of tf.keras.optimizers.Optimizer'')
   \<and> resolve_optimizer ex_optimizers_get (PyOptimizer ex_sgd) = Inr (PyOptimizer ex_sgd)
   \<and> is_optimizer (PyOptimizer ex_sgd) \<and> \<not> is_bool (PyInt 1 :: unit pyval)
   \<and> init ex_super_init ex_optimizers_get (PyOptimizer ex_sgd) (PyInt 1)
       (PyStr ''AverageOptimizer'') Map.empty
       = Inl (TypeError ''sequential_update must be of bool type'')
   \<and> resolve_optimizer ex_optimizers_get (PyStr ''sgd'') = Inr (PyOptimizer ex_sgd)
   \<and> is_bool (PyBool True :: unit pyval)
   \<and> (\<exists>w. init ex_super_init ex_optimizers_get (PyStr ''sgd'') (PyBool True)
             (PyStr ''AverageOptimizer'') Map.empty = Inr w)"
proof -
  have h: "ex_super_init (PyStr ''AverageOptimizer'') Map.empty
             = Inr (ex_keras ''AverageOptimizer'')"
    by (simp add: ex_super_init_def)
  have r1: "resolve_optimizer ex_optimizers_get (PyStr ''adamm'')
              = Inl (ValueError ''Unknown optimizer'')"
    by (simp add: resolve_optimizer_def ex_optimizers_get_def)
  have r2: "resolve_optimizer ex_optimizers_get (PyInt 3) = Inr (PyInt 3)"
    by (simp add: resolve_optimizer_def)
  have r3: "resolve_optimizer ex_optimizers_get (PyOptimizer ex_sgd) = Inr (PyOptimizer ex_sgd)"
    by (simp add: resolve_optimizer_def)
  have r4: "resolve_optimizer ex_optimizers_get (PyStr ''sgd'') = Inr (PyOptimizer ex_sgd)"
    by (simp add: resolve_optimizer_def ex_optimizers_get_def)
  show ?thesis
    using h r1 r2 r3 r4
      init_outcomes [where super_init = ex_super_init
        and name = "PyStr ''AverageOptimizer''" and kwargs = Map.empty
        and k = "ex_keras ''AverageOptimizer''" and optimizers_get = ex_optimizers_get
        and optimizer_arg = "PyStr ''adamm''" and flag = "PyBool True"]
      init_outcomes [where super_init = ex_super_init
        and name = "PyStr ''AverageOptimizer''" and kwargs = Map.empty
        and k = "ex_keras ''AverageOptimizer''" and optimizers_get = ex_optimizers_get
        and optimizer_arg = "PyInt 3" and flag = "PyBool True"]
      init_outcomes [where super_init = ex_super_init
        and name = "PyStr ''AverageOptimizer''" and kwargs = Map.empty
        and k = "ex_keras ''AverageOptimizer''" and optimizers_get = ex_optimizers_get
        and optimizer_arg = "PyOptimizer ex_sgd" and flag = "PyInt 1"]
      init_outcomes [where super_init = ex_super_init
        and name = "PyStr ''AverageOptimizer''" and kwargs = Map.empty
        and k = "ex_keras ''AverageOptimizer''" and optimizers_get = ex_optimizers_get
        and optimizer_arg = "PyStr ''sgd''" and flag = "PyBool True"]
    by simp
qed

section \<open>The average update after the train update\<close>

lemma apply_average_op_sequential:
  "get_slot self var ''average'' = Inr average_var \<Longrightarrow> sequential_update self \<Longrightarrow>
   apply_average_op average_op self scope train_op var =
     average_op (scope @ [train_op]) var average_var"
  by (simp add: apply_average_op_def control_dependencies_def)

lemma apply_average_op_concurrent:
  "get_slot self var ''average'' = Inr average_var \<Longrightarrow> \<not> sequential_update self \<Longrightarrow>
   apply_average_op average_op self scope train_op var = average_op scope var average_var"
  by (simp add: apply_average_op_def)

text \<open>
  An averaging rule that builds one node in the scope it is called in: in sequential mode
  the train update is among the control inputs of the average update, otherwise the
  average update has the control inputs of the surrounding scope only.
\<close>

lemma scoped_rule_control_inputs:
  assumes "get_slot self var ''average'' = Inr average_var"
    and "apply_average_op (\<lambda>scope v s. Inr (Node (rule v s) scope)) self scope train_op var
           = Inr avg_op"
  shows "(sequential_update self \<longrightarrow> train_op \<in> set (control_inputs avg_op))
       \<and> (\<not> sequential_update self \<longrightarrow> control_inputs avg_op = scope)"
  using assms
  by (cases "sequential_update self")
     (auto simp: apply_average_op_sequential apply_average_op_concurrent)

text \<open>
  C1. For a variable that has its average slot, and for each of the three ways a gradient
  is applied (dense, sparse, sparse with duplicate indices): with \<open>sequential_update\<close>
  true the averaging rule is called inside the control-dependency scope extended by the
  train update of that variable, with \<open>sequential_update\<close> false it is called in the
  surrounding scope, with no dependency on the train update declared; in both modes the
  value returned is the group of the train update and the average update.
\<close>

theorem average_update_ordering:
  assumes slot: "get_slot self var ''average'' = Inr average_var"
    and avg: "average_op (if sequential_update self then scope @ [train_op] else scope)
                var average_var = Inr avg_op"
  shows "(oc_resource_apply_dense cls (optimizer self) scope grad var = Inr train_op \<longrightarrow>
            resource_apply_dense cls average_op self scope grad var
              = Inr (Group [train_op, avg_op]))
       \<and> (oc_resource_apply_sparse cls (optimizer self) scope grad var indices = Inr train_op \<longrightarrow>
            resource_apply_sparse cls average_op self scope grad var indices
              = Inr (Group [train_op, avg_op]))
       \<and> (oc_resource_apply_sparse_duplicate_indices cls (optimizer self) scope grad var indices
              = Inr train_op \<longrightarrow>
            resource_apply_sparse_duplicate_indices cls average_op self scope grad var indices
              = Inr (Group [train_op, avg_op]))
       \<and> apply_average_op average_op self scope train_op var = Inr avg_op"
proof -
  have a: "apply_average_op average_op self scope train_op var = Inr avg_op"
    using slot avg
    by (cases "sequential_update self")
       (simp_all add: apply_average_op_sequential apply_average_op_concurrent)
  show ?thesis
    using a
    by (simp add: resource_apply_dense_def resource_apply_sparse_def
        resource_apply_sparse_duplicate_indices_def)
qed

lemma ex_slotted_get_slot:
  "get_slot (ex_slotted s) ex_var ''average'' = Inr (new_slot ex_var ''average'')"
  by (simp add: get_slot_def ex_slotted_def)

theorem average_update_ordering_witness:
  "get_slot (ex_slotted True) ex_var ''average'' = Inr (new_slot ex_var ''average'')
   \<and> resource_apply_dense ex_class ex_average_op (ex_slotted True) [] [2, 2] ex_var
       = Inr (Group [Node ''train_dense'' [], Node ''average'' [Node ''train_dense'' []]])
   \<and> resource_apply_sparse ex_class ex_average_op (ex_slotted True) [] [2] ex_var [0]
       = Inr (Group [Node ''train_sparse'' [], Node ''average'' [Node ''train_sparse'' []]])
   \<and> resource_apply_sparse_duplicate_indices ex_class ex_average_op (ex_slotted True) []
         [2, 2] ex_var [0, 0]
       = Inr (Group [Node ''train_sparse_dup'' [],
                     Node ''average'' [Node ''train_sparse_dup'' []]])
   \<and> get_slot (ex_slotted False) ex_var ''average'' = Inr (new_slot ex_var ''average'')
   \<and> resource_apply_dense ex_class ex_average_op (ex_slotted False) [] [2, 2] ex_var
       = Inr (Group [Node ''train_dense'' [], Node ''average'' []])"
proof -
  have o: "optimizer (ex_slotted s) = ex_sgd" "sequential_update (ex_slotted s) = s" for s
    by (simp_all add: ex_slotted_def)
  have d: "oc_resource_apply_dense ex_class ex_sgd [] [2, 2] ex_var
             = Inr (Node ''train_dense'' [])"
    by (simp add: ex_class_def)
  have sp: "oc_resource_apply_sparse ex_class ex_sgd [] [2] ex_var [0]
              = Inr (Node ''train_sparse'' [])"
    by (simp add: ex_class_def)
  have du: "oc_resource_apply_sparse_duplicate_indices ex_class ex_sgd [] [2, 2] ex_var [0, 0]
              = Inr (Node ''train_sparse_dup'' [])"
    by (simp add: ex_class_def)
  have a: "ex_average_op sc ex_var (new_slot ex_var ''average'') = Inr (Node ''average'' sc)"
    for sc
    by (simp add: ex_average_op_def)
  show ?thesis
    using ex_slotted_get_slot [of True] ex_slotted_get_slot [of False] o d sp du a
      average_update_ordering [where self = "ex_slotted True" and var = ex_var
        and average_var = "new_slot ex_var ''average''" and average_op = ex_average_op
        and scope = "[]" and train_op = "Node ''train_dense'' []"
        and avg_op = "Node ''average'' [Node ''train_dense'' []]" and cls = ex_class
        and grad = "[2, 2]" and indices = "[]"]
      average_update_ordering [where self = "ex_slotted True" and var = ex_var
        and average_var = "new_slot ex_var ''average''" and average_op = ex_average_op
        and scope = "[]" and train_op = "Node ''train_sparse'' []"
        and avg_op = "Node ''average'' [Node ''train_sparse'' []]" and cls = ex_class
        and grad = "[2]" and indices = "[0]"]
      average_update_ordering [where self = "ex_slotted True" and var = ex_var
        and average_var = "new_slot ex_var ''average''" and average_op = ex_average_op
        and scope = "[]" and train_op = "Node ''train_sparse_dup'' []"
        and avg_op = "Node ''average'' [Node ''train_sparse_dup'' []]" and cls = ex_class
        and grad = "[2, 2]" and indices = "[0, 0]"]
      average_update_ordering [where self = "ex_slotted False" and var = ex_var
        and average_var = "new_slot ex_var ''average''" and average_op = ex_average_op
        and scope = "[]" and train_op = "Node ''train_dense'' []"
        and avg_op = "Node ''average'' []" and cls = ex_class
        and grad = "[2, 2]" and indices = "[]"]
    by simp
qed

section \<open>The iteration counters\<close>

text \<open>
  C3, as stated, says that the two counters are equal immediately before every call of
  \<^verbatim>\<open>apply_gradients\<close>. A wrapper built around an optimizer that has already taken five
  steps has its own counter at 0 and the wrapped optimizer's at 5 immediately before its
  first call, and that call goes through.
\<close>

theorem counters_differ_before_first_call_counterexample:
  "wrapper_count ex_world ex_rewrapper = Some 0
   \<and> optimizer_count ex_world ex_rewrapper = Some 5
   \<and> apply_gradients ex_class ex_average_op ex_rewrapper [] [(DenseGrad [1, 1], ex_var)]
       = (Inr (AssignAdd 0 1
                 [Group [Node ''train_dense'' [], Node ''average'' [Node ''train_dense'' []]]]),
          ex_synced)"
  by (simp add: wrapper_count_def optimizer_count_def ex_world_def ex_rewrapper_def
      ex_synced_def ex_slotted_def ex_used_sgd_def apply_gradients_def
      super_apply_gradients_def dispatch_def resource_apply_dense_def apply_average_op_def
      get_slot_def control_dependencies_def ex_class_def ex_average_op_def)

text \<open>
  C3, amended. \<^verbatim>\<open>apply_gradients\<close> copies the wrapper's own iteration counter into the
  wrapped optimizer's counter field before it delegates: what the call yields, an operation
  or an error, is what the superclass's control flow yields on the wrapper as the copy left
  it, so every handler of the wrapped optimizer already sees the copied counter. After every
  call, returning or raising, the wrapper is the original with that one field set: the
  field denotes the wrapper's own counter, which the call has not re-bound, and the two
  counters read the same in every world. A call on a wrapper whose field already denotes
  its counter leaves the wrapper as it is, so the counters are equal immediately after every
  call and immediately before every call but the first.
\<close>

theorem apply_gradients_shares_counter:
  "snd (apply_gradients cls average_op self scope grads_and_vars)
     = self\<lparr>optimizer := (optimizer self)\<lparr>opt_iterations := Some (k_iterations self)\<rparr>\<rparr>
   \<and> fst (apply_gradients cls average_op self scope grads_and_vars)
       = super_apply_gradients cls average_op
           (self\<lparr>optimizer := (optimizer self)\<lparr>opt_iterations := Some (k_iterations self)\<rparr>\<rparr>)
           scope grads_and_vars
   \<and> opt_iterations (optimizer (snd (apply_gradients cls average_op self scope grads_and_vars)))
       = Some (k_iterations (snd (apply_gradients cls average_op self scope grads_and_vars)))
   \<and> k_iterations (snd (apply_gradients cls average_op self scope grads_and_vars))
       = k_iterations self
   \<and> optimizer_count wd (snd (apply_gradients cls average_op self scope grads_and_vars))
       = wrapper_count wd (snd (apply_gradients cls average_op self scope grads_and_vars))
   \<and> (opt_iterations (optimizer self) = Some (k_iterations self) \<longrightarrow>
        snd (apply_gradients cls average_op self scope grads_and_vars) = self)"
  by (simp add: apply_gradients_def Let_def optimizer_count_def wrapper_count_def)

lemma ex_rewrapper_first_call:
  "apply_gradients ex_reading_class ex_average_op ex_rewrapper []
     [(DenseGrad [1, 1], ex_var)]
   = (Inr (AssignAdd 0 1
             [Group [Node ''train_at_cell_0'' [],
                     Node ''average'' [Node ''train_at_cell_0'' []]]]),
      ex_synced)"
  by (simp add: ex_rewrapper_def ex_synced_def ex_slotted_def ex_used_sgd_def
      apply_gradients_def super_apply_gradients_def dispatch_def resource_apply_dense_def
      apply_average_op_def get_slot_def control_dependencies_def ex_reading_class_def
      ex_class_def ex_average_op_def)

lemma ex_unslotted_failing_call:
  "apply_gradients ex_reading_class ex_average_op ex_unslotted []
     [(DenseGrad [1, 1], ex_var)]
   = (Inl (KeyError ''average''),
      ex_unslotted\<lparr>optimizer := \<lparr>opt_iterations = Some 0, opt_state = ()\<rparr>\<rparr>)"
  by (simp add: ex_unslotted_def ex_wrapper_def ex_used_sgd_def
      apply_gradients_def super_apply_gradients_def dispatch_def resource_apply_dense_def
      apply_average_op_def get_slot_def ex_reading_class_def ex_class_def)

theorem apply_gradients_shares_counter_witness:
  "optimizer_count ex_world ex_rewrapper = Some 5
   \<and> apply_gradients ex_reading_class ex_average_op ex_rewrapper []
        [(DenseGrad [1, 1], ex_var)]
      = (Inr (AssignAdd 0 1
                [Group [Node ''train_at_cell_0'' [],
                        Node ''average'' [Node ''train_at_cell_0'' []]]]),
         ex_synced)
   \<and> optimizer_count ex_world ex_synced = Some 0
   \<and> wrapper_count ex_world ex_synced = Some 0
   \<and> opt_iterations (optimizer ex_synced) = Some (k_iterations ex_synced)
   \<and> snd (apply_gradients ex_reading_class ex_average_op ex_synced []
             [(DenseGrad [1, 1], ex_var)]) = ex_synced
   \<and> fst (apply_gradients ex_reading_class ex_average_op ex_unslotted []
             [(DenseGrad [1, 1], ex_var)]) = Inl (KeyError ''average'')
   \<and> optimizer_count ex_world
        (snd (apply_gradients ex_reading_class ex_average_op ex_unslotted []
                [(DenseGrad [1, 1], ex_var)]))
      = wrapper_count ex_world
          (snd (apply_gradients ex_reading_class ex_average_op ex_unslotted []
                  [(DenseGrad [1, 1], ex_var)]))"
proof -
  have b: "optimizer_count ex_world ex_rewrapper = Some 5"
    by (simp add: optimizer_count_def ex_world_def ex_rewrapper_def ex_used_sgd_def)
  have w: "wrapper_count ex_world ex_synced = Some 0"
    by (simp add: wrapper_count_def ex_world_def ex_synced_def ex_rewrapper_def
        ex_slotted_def)
  have o: "optimizer_count ex_world ex_synced = Some 0"
    by (simp add: optimizer_count_def ex_world_def ex_synced_def)
  have f: "opt_iterations (optimizer ex_synced) = Some (k_iterations ex_synced)"
    by (simp add: ex_synced_def ex_rewrapper_def ex_slotted_def)
  have s1: "snd (apply_gradients ex_reading_class ex_average_op ex_synced []
                   [(DenseGrad [1, 1], ex_var)]) = ex_synced"
    using f apply_gradients_shares_counter [of ex_reading_class ex_average_op ex_synced "[]"
        "[(DenseGrad [1, 1], ex_var)]" ex_world]
    by blast
  have f2: "fst (apply_gradients ex_reading_class ex_average_op ex_unslotted []
                   [(DenseGrad [1, 1], ex_var)]) = Inl (KeyError ''average'')"
    by (simp add: ex_unslotted_failing_call)
  have c2: "optimizer_count ex_world
        (snd (apply_gradients ex_reading_class ex_average_op ex_unslotted []
                [(DenseGrad [1, 1], ex_var)]))
      = wrapper_count ex_world
          (snd (apply_gradients ex_reading_class ex_average_op ex_unslotted []
                  [(DenseGrad [1, 1], ex_var)]))"
    using apply_gradients_shares_counter [of ex_reading_class ex_average_op ex_unslotted "[]"
        "[(DenseGrad [1, 1], ex_var)]" ex_world]
    by blast
  show ?thesis
    by (intro conjI) (rule b ex_rewrapper_first_call o w f s1 f2 c2)+
qed

section \<open>Creating the slots\<close>

lemma add_slot_wf:
  assumes "slots_wf self" and "add_slot self wd var name = (self', wd')"
  shows "slots_wf self'"
proof (cases "k_slots self (var, name)")
  case (Some s)
  with assms show ?thesis by (simp add: add_slot_def)
next
  case None
  have self': "self' = self\<lparr>k_slots := (k_slots self)((var, name) \<mapsto> new_slot var name),
                           k_weights := k_weights self @ [SlotWeight (new_slot var name)]\<rparr>"
    using assms(2) None by (simp add: add_slot_def Let_def)
  have a: "\<forall>v n s. k_slots self' (v, n) = Some s \<longrightarrow> s = new_slot v n"
    using assms(1) by (auto simp: self' slots_wf_def)
  have b: "count_list (k_weights self') (SlotWeight s) =
             (if k_slots self' (slot_of s, slot_name s) = Some s then 1 else 0)" for s
  proof (cases "s = new_slot var name")
    case True
    have "count_list (k_weights self) (SlotWeight s) = 0"
      using assms(1) None True by (simp add: slots_wf_def new_slot_def)
    then show ?thesis using True by (simp add: self' new_slot_def)
  next
    case False
    have "count_list (k_weights self) (SlotWeight s) =
            (if k_slots self (slot_of s, slot_name s) = Some s then 1 else 0)"
      using assms(1) by (simp add: slots_wf_def)
    then show ?thesis using False None by (auto simp: self')
  qed
  show ?thesis using a b by (simp add: slots_wf_def)
qed

lemma add_slot_optimizer:
  "add_slot self wd var name = (self', wd') \<Longrightarrow>
   optimizer self' = optimizer self \<and> sequential_update self' = sequential_update self
   \<and> k_iterations self' = k_iterations self \<and> k_name self' = k_name self"
  by (auto simp: add_slot_def Let_def split: option.splits)

lemma add_slot_keeps:
  "add_slot self wd var name = (self', wd') \<Longrightarrow> k_slots self key = Some s \<Longrightarrow>
   k_slots self' key = Some s"
  by (auto simp: add_slot_def Let_def split: option.splits)

lemma add_slot_present:
  "add_slot self wd var name = (self', wd') \<Longrightarrow> k_slots self' (var, name) \<noteq> None"
  by (auto simp: add_slot_def Let_def split: option.splits)

lemma add_average_slots_wf:
  "slots_wf self \<Longrightarrow> add_average_slots self wd var_list = (self', wd') \<Longrightarrow> slots_wf self'"
proof (induction var_list arbitrary: self wd)
  case Nil
  then show ?case by simp
next
  case (Cons var var_list)
  obtain self1 wd1 where s1: "add_slot self wd var ''average'' = (self1, wd1)"
    by (cases "add_slot self wd var ''average''")
  have "slots_wf self1" using Cons.prems(1) s1 by (rule add_slot_wf)
  moreover have "add_average_slots self1 wd1 var_list = (self', wd')"
    using Cons.prems(2) s1 by simp
  ultimately show ?case by (rule Cons.IH)
qed

lemma add_average_slots_optimizer:
  "add_average_slots self wd var_list = (self', wd') \<Longrightarrow> optimizer self' = optimizer self"
proof (induction var_list arbitrary: self wd)
  case Nil
  then show ?case by simp
next
  case (Cons var var_list)
  obtain self1 wd1 where s1: "add_slot self wd var ''average'' = (self1, wd1)"
    by (cases "add_slot self wd var ''average''")
  have "optimizer self' = optimizer self1"
    using Cons.prems s1 Cons.IH [of self1 wd1] by simp
  then show ?case using add_slot_optimizer [OF s1] by simp
qed

lemma add_average_slots_keeps:
  "add_average_slots self wd var_list = (self', wd') \<Longrightarrow> k_slots self key = Some s \<Longrightarrow>
   k_slots self' key = Some s"
proof (induction var_list arbitrary: self wd)
  case Nil
  then show ?case by simp
next
  case (Cons var var_list)
  obtain self1 wd1 where s1: "add_slot self wd var ''average'' = (self1, wd1)"
    by (cases "add_slot self wd var ''average''")
  have "add_average_slots self1 wd1 var_list = (self', wd')"
    using Cons.prems(1) s1 by simp
  moreover have "k_slots self1 key = Some s" using s1 Cons.prems(2) by (rule add_slot_keeps)
  ultimately show ?case by (rule Cons.IH)
qed

lemma add_average_slots_present:
  "add_average_slots self wd var_list = (self', wd') \<Longrightarrow> v \<in> set var_list \<Longrightarrow>
   k_slots self' (v, ''average'') \<noteq> None"
proof (induction var_list arbitrary: self wd)
  case Nil
  then show ?case by simp
next
  case (Cons var var_list)
  obtain self1 wd1 where s1: "add_slot self wd var ''average'' = (self1, wd1)"
    by (cases "add_slot self wd var ''average''")
  have rest: "add_average_slots self1 wd1 var_list = (self', wd')"
    using Cons.prems(1) s1 by simp
  show ?case
  proof (cases "v = var")
    case True
    obtain s where "k_slots self1 (var, ''average'') = Some s"
      using add_slot_present [OF s1] by auto
    then have "k_slots self' (var, ''average'') = Some s"
      using rest add_average_slots_keeps by blast
    then show ?thesis using True by simp
  next
    case False
    then have "v \<in> set var_list" using Cons.prems(2) by simp
    with rest show ?thesis by (rule Cons.IH)
  qed
qed

lemma add_average_slots_idem:
  "\<forall>v\<in>set var_list. k_slots self (v, ''average'') \<noteq> None \<Longrightarrow>
   add_average_slots self wd var_list = (self, wd)"
  by (induction var_list) (auto simp: add_slot_def)

lemma slots_optimizer_update [simp]:
  "k_slots (self\<lparr>optimizer := opt\<rparr>) = k_slots self"
  "slots_wf (self\<lparr>optimizer := opt\<rparr>) = slots_wf self"
  by (simp_all add: slots_wf_def)

text \<open>
  C5. When the wrapped optimizer's own slot creation for the list \<open>var_list\<close> returns, the
  wrapper's \<^verbatim>\<open>_create_slots\<close> returns too, its wrapped optimizer is the one that slot
  creation for that same list produced, and every variable of the list has an average slot
  with the variable's shape and dtype, held once in the wrapper's weights. Creating the
  slots for the same list a second time, in whatever world the steps in between have left,
  changes neither the slot dictionary nor the weights nor any value of that world: no slot
  is duplicated and no slot contents are reset.
\<close>

theorem create_slots_average_slots:
  assumes wf: "slots_wf self"
    and base: "oc_create_slots cls (optimizer self) var_list = Inr opt"
  shows "\<exists>self' wd'. create_slots cls self wd var_list = Inr (self', wd')
         \<and> optimizer self' = opt
         \<and> (\<forall>v\<in>set var_list. \<exists>s. k_slots self' (v, ''average'') = Some s
               \<and> slot_shape s = var_shape v \<and> slot_dtype s = var_dtype v
               \<and> count_list (k_weights self') (SlotWeight s) = 1)
         \<and> (\<forall>opt2 wd2. oc_create_slots cls opt var_list = Inr opt2 \<longrightarrow>
               create_slots cls self' wd2 var_list = Inr (self'\<lparr>optimizer := opt2\<rparr>, wd2))"
proof -
  obtain self' wd' where r: "add_average_slots (self\<lparr>optimizer := opt\<rparr>) wd var_list = (self', wd')"
    by (cases "add_average_slots (self\<lparr>optimizer := opt\<rparr>) wd var_list")
  have c: "create_slots cls self wd var_list = Inr (self', wd')"
    using base r by (simp add: create_slots_def)
  have o: "optimizer self' = opt"
    using add_average_slots_optimizer [OF r] by simp
  have wf': "slots_wf self'"
    using add_average_slots_wf [OF _ r] wf by simp
  have present: "\<forall>v\<in>set var_list. k_slots self' (v, ''average'') \<noteq> None"
    using add_average_slots_present [OF r] by blast
  have one: "\<exists>s. k_slots self' (v, ''average'') = Some s
               \<and> slot_shape s = var_shape v \<and> slot_dtype s = var_dtype v
               \<and> count_list (k_weights self') (SlotWeight s) = 1" if v: "v \<in> set var_list" for v
  proof -
    obtain s where s: "k_slots self' (v, ''average'') = Some s"
      using present v by auto
    have n: "s = new_slot v ''average''" using wf' s by (simp add: slots_wf_def)
    have "count_list (k_weights self') (SlotWeight s) =
            (if k_slots self' (slot_of s, slot_name s) = Some s then 1 else 0)"
      using wf' by (simp add: slots_wf_def)
    then have "count_list (k_weights self') (SlotWeight s) = 1"
      using s n by (simp add: new_slot_def)
    then show ?thesis using s n by (simp add: new_slot_def)
  qed
  have again: "create_slots cls self' wd2 var_list = Inr (self'\<lparr>optimizer := opt2\<rparr>, wd2)"
    if "oc_create_slots cls opt var_list = Inr opt2" for opt2 wd2
    using that o present by (simp add: create_slots_def add_average_slots_idem)
  show ?thesis using c o one again by blast
qed


lemma ex_wrapper_wf: "slots_wf (ex_wrapper s)"
  by (simp add: slots_wf_def ex_wrapper_def)

theorem create_slots_average_slots_witness:
  "slots_wf (ex_wrapper True)
   \<and> oc_create_slots ex_class (optimizer (ex_wrapper True)) [ex_var, ex_frozen] = Inr ex_sgd
   \<and> ex_var \<in> set [ex_var, ex_frozen]
   \<and> (\<exists>self' wd'. create_slots ex_class (ex_wrapper True) ex_world [ex_var, ex_frozen]
           = Inr (self', wd')
         \<and> optimizer self' = ex_sgd
         \<and> (\<forall>v\<in>set [ex_var, ex_frozen]. \<exists>s. k_slots self' (v, ''average'') = Some s
               \<and> slot_shape s = var_shape v \<and> slot_dtype s = var_dtype v
               \<and> count_list (k_weights self') (SlotWeight s) = 1)
         \<and> (\<forall>opt2 wd2. oc_create_slots ex_class ex_sgd [ex_var, ex_frozen] = Inr opt2 \<longrightarrow>
               create_slots ex_class self' wd2 [ex_var, ex_frozen]
                 = Inr (self'\<lparr>optimizer := opt2\<rparr>, wd2)))"
proof -
  have b: "oc_create_slots ex_class (optimizer (ex_wrapper True)) [ex_var, ex_frozen]
             = Inr ex_sgd"
    by (simp add: ex_class_def ex_wrapper_def)
  show ?thesis
    using ex_wrapper_wf [of True] b
      create_slots_average_slots [OF ex_wrapper_wf [of True] b, of ex_world]
    by simp
qed

section \<open>Assigning the averages to the variables\<close>

lemma assign_ops_untrainable:
  "\<forall>v\<in>set var_list. \<not> var_trainable v \<Longrightarrow> assign_ops self var_list = Inr []"
  by (induction var_list) simp_all

lemma assign_ops_slotted:
  "\<forall>v\<in>set var_list. var_trainable v \<longrightarrow> k_slots self (v, ''average'') \<noteq> None \<Longrightarrow>
   assign_ops self var_list =
     Inr (map (\<lambda>v. Assign v (the (k_slots self (v, ''average''))))
            (filter var_trainable var_list))"
  by (induction var_list) (auto simp: get_slot_def)

lemma run_ops_assigns:
  "run_ops (map (\<lambda>v. Assign v (f v)) xs) wd =
     Some (wd\<lparr>var_value := (\<lambda>v. if v \<in> set xs then slot_value wd (f v) else var_value wd v)\<rparr>)"
proof (induction xs arbitrary: wd)
  case Nil
  then show ?case by simp
next
  case (Cons x xs)
  show ?case
    apply (simp add: Cons.IH)
    apply (rule world.equality)
       apply (auto simp: fun_eq_iff)
    done
qed

text \<open>
  C6. For a list in which every trainable variable has its average slot,
  \<^verbatim>\<open>assign_average_vars\<close> returns one operation, the group of one assignment per
  trainable variable of the list; running it gives every trainable variable of the list the
  contents its average slot had, leaves every other variable (the non-trainable ones of the
  list among them) as it was, and changes no slot and no counter.
\<close>

theorem assign_average_vars_overwrites:
  assumes "\<forall>v\<in>set var_list. var_trainable v \<longrightarrow> k_slots self (v, ''average'') \<noteq> None"
  shows "\<exists>wd'. (assign_average_vars self var_list :: error + 'k op) =
             Inr (Group (map (\<lambda>v. Assign v (the (k_slots self (v, ''average''))))
                           (filter var_trainable var_list)))
         \<and> run_op (Group (map (\<lambda>v. Assign v (the (k_slots self (v, ''average''))))
                           (filter var_trainable var_list))) wd = Some wd'
         \<and> (\<forall>v\<in>set var_list. var_trainable v \<longrightarrow>
               get_slot self v ''average'' = Inr (the (k_slots self (v, ''average'')))
               \<and> var_value wd' v = slot_value wd (the (k_slots self (v, ''average''))))
         \<and> (\<forall>v. \<not> (v \<in> set var_list \<and> var_trainable v) \<longrightarrow> var_value wd' v = var_value wd v)
         \<and> slot_value wd' = slot_value wd
         \<and> counter_value wd' = counter_value wd"
  using assms
  by (auto simp: assign_average_vars_def assign_ops_slotted run_ops_assigns get_slot_def)

theorem assign_average_vars_overwrites_witness:
  "k_slots (ex_slotted True) (ex_var, ''average'') \<noteq> None
   \<and> var_trainable ex_var \<and> \<not> var_trainable ex_frozen
   \<and> (assign_average_vars (ex_slotted True) [ex_var, ex_frozen] :: error + string op)
       = Inr (Group [Assign ex_var (new_slot ex_var ''average'')])
   \<and> (\<exists>wd'. run_op (Group [Assign ex_var (new_slot ex_var ''average'')] :: string op) ex_world
               = Some wd'
         \<and> var_value wd' ex_var = [99 / 10, 2]
         \<and> var_value wd' ex_frozen = [0])"
proof -
  have h: "\<forall>v\<in>set [ex_var, ex_frozen]. var_trainable v \<longrightarrow>
             k_slots (ex_slotted True) (v, ''average'') \<noteq> None"
    by (simp add: ex_var_def ex_frozen_def ex_slotted_def)
  have t: "var_trainable ex_var" "\<not> var_trainable ex_frozen" "ex_frozen \<noteq> ex_var"
    by (simp_all add: ex_var_def ex_frozen_def)
  have k: "the (k_slots (ex_slotted True) (ex_var, ''average'')) = new_slot ex_var ''average''"
    by (simp add: ex_slotted_def)
  have v: "slot_value ex_world (new_slot ex_var ''average'') = [99 / 10, 2]"
      "var_value ex_world ex_frozen = [0]"
    using t by (simp_all add: ex_world_def)
  show ?thesis
    using h t k v
      assign_average_vars_overwrites [OF h, of ex_world, where ?'k = string]
    by auto
qed

text \<open>
  C10. For a list with no trainable variable, the empty list among them,
  \<^verbatim>\<open>assign_average_vars\<close> returns the empty group whatever the wrapper's slot dictionary
  holds, so no slot is looked up and nothing is raised; running the empty group leaves the
  world as it is.
\<close>

theorem assign_average_vars_nothing_trainable:
  assumes "\<forall>v\<in>set var_list. \<not> var_trainable v"
  shows "(assign_average_vars self var_list :: error + 'k op) = Inr (Group [])
       \<and> run_op (Group [] :: 'k op) wd = Some wd"
  using assms by (simp add: assign_average_vars_def assign_ops_untrainable)

theorem assign_average_vars_nothing_trainable_witness:
  "\<not> var_trainable ex_frozen
   \<and> k_slots (ex_wrapper True) (ex_frozen, ''average'') = None
   \<and> (assign_average_vars (ex_wrapper True) [ex_frozen] :: error + string op) = Inr (Group [])
   \<and> (assign_average_vars (ex_wrapper True) [] :: error + string op) = Inr (Group [])
   \<and> run_op (Group [] :: string op) ex_world = Some ex_world"
proof -
  have h: "\<forall>v\<in>set [ex_frozen]. \<not> var_trainable v"
    by (simp add: ex_frozen_def)
  have e: "\<forall>v\<in>set ([] :: variable list). \<not> var_trainable v"
    by simp
  have k: "k_slots (ex_wrapper True) (ex_frozen, ''average'') = None"
    by (simp add: ex_wrapper_def)
  show ?thesis
    using h k
      assign_average_vars_nothing_trainable [OF h, of "ex_wrapper True" ex_world,
        where ?'k = string]
      assign_average_vars_nothing_trainable [OF e, of "ex_wrapper True" ex_world,
        where ?'k = string]
    by simp
qed

section \<open>The weights\<close>

text \<open>
  C8. The \<^verbatim>\<open>weights\<close> of the wrapper are its own weights list followed by the weights
  of the wrapped optimizer: the first \<open>length (k_weights self)\<close> entries are the wrapper's
  own, in their order, and the entries after them are exactly the wrapped optimizer's.
\<close>

theorem weights_order:
  "take (length (k_weights self)) (weights cls self) = k_weights self
   \<and> drop (length (k_weights self)) (weights cls self) = oc_weights cls (optimizer self)
   \<and> length (weights cls self)
       = length (k_weights self) + length (oc_weights cls (optimizer self))"
  by (simp add: weights_def)

section \<open>Configurations\<close>

text \<open>
  C9. \<^verbatim>\<open>from_config\<close> leaves the caller's dictionary without the key
  \<^verbatim>\<open>optimizer\<close> and with every other entry as it was, whether or not the nested
  configuration could be resolved and the wrapper constructed; the dictionary the
  constructor receives is that one.
\<close>

theorem from_config_pops_optimizer:
  "fst (from_config super_init optimizers_get deserialize config custom_objects)
     = config(''optimizer'' := None)"
  by (auto simp: from_config_def Let_def split: option.splits)

lemma restrict_popped:
  "((b ++ [''optimizer'' \<mapsto> x, ''sequential_update'' \<mapsto> y])(''optimizer'' := None))
      |` (- {''sequential_update'', ''name''})
   = b |` (- {''optimizer'', ''sequential_update'', ''name''})"
  by (rule ext) (simp add: restrict_map_def map_add_def)

text \<open>
  C4. The configuration of a wrapper holds the serialized wrapped optimizer under
  \<^verbatim>\<open>optimizer\<close>, the flag under \<^verbatim>\<open>sequential_update\<close>, and under every other key
  what the superclass's configuration holds. When the registry resolves the serialized
  wrapped optimizer to an optimizer with the same serialized configuration, and the
  superclass constructor accepts the name and the options of the superclass's
  configuration, \<^verbatim>\<open>from_config\<close> of that configuration returns a wrapper whose wrapped
  optimizer has the original's serialized configuration and whose flag is the original's.
\<close>

theorem config_round_trip:
  assumes deser: "deserialize (serialize (optimizer self)) custom_objects = Inr (PyOptimizer opt')"
    and same: "serialize opt' = serialize (optimizer self)"
    and sup: "super_init
                (case super_get_config self ''name'' of
                   None \<Rightarrow> PyStr ''AverageOptimizer'' | Some v \<Rightarrow> v)
                (super_get_config self |` (- {''optimizer'', ''sequential_update'', ''name''}))
              = Inr k"
  shows "get_config serialize super_get_config self ''optimizer''
           = Some (serialize (optimizer self))
       \<and> get_config serialize super_get_config self ''sequential_update''
           = Some (PyBool (sequential_update self))
       \<and> (\<forall>key. key \<noteq> ''optimizer'' \<and> key \<noteq> ''sequential_update'' \<longrightarrow>
             get_config serialize super_get_config self key = super_get_config self key)
       \<and> (\<exists>w. snd (from_config super_init optimizers_get deserialize
                      (get_config serialize super_get_config self) custom_objects) = Inr w
             \<and> serialize (optimizer w) = serialize (optimizer self)
             \<and> sequential_update w = sequential_update self)"
proof -
  let ?cfg = "get_config serialize super_get_config self"
  have o: "?cfg ''optimizer'' = Some (serialize (optimizer self))"
    by (simp add: get_config_def)
  have s: "?cfg ''sequential_update'' = Some (PyBool (sequential_update self))"
    by (simp add: get_config_def)
  have rest: "\<forall>key. key \<noteq> ''optimizer'' \<and> key \<noteq> ''sequential_update'' \<longrightarrow>
                ?cfg key = super_get_config self key"
    by (simp add: get_config_def map_add_def)
  have n: "(?cfg(''optimizer'' := None)) ''name'' = super_get_config self ''name''"
    by (simp add: get_config_def map_add_def)
  have s': "(?cfg(''optimizer'' := None)) ''sequential_update''
              = Some (PyBool (sequential_update self))"
    by (simp add: get_config_def)
  have kw: "(?cfg(''optimizer'' := None)) |` (- {''sequential_update'', ''name''})
              = super_get_config self |` (- {''optimizer'', ''sequential_update'', ''name''})"
    unfolding get_config_def Let_def by (rule restrict_popped)
  have c: "call_cls super_init optimizers_get (PyOptimizer opt') (?cfg(''optimizer'' := None))
             = Inr \<lparr>k_name = k_name k, k_iterations = k_iterations k,
                    k_weights = k_weights k, k_slots = k_slots k,
                    optimizer = opt', sequential_update = sequential_update self\<rparr>"
    unfolding call_cls_def n s' kw
    using sup by (simp add: init_def resolve_optimizer_def)
  have "snd (from_config super_init optimizers_get deserialize ?cfg custom_objects)
          = Inr \<lparr>k_name = k_name k, k_iterations = k_iterations k,
                 k_weights = k_weights k, k_slots = k_slots k,
                 optimizer = opt', sequential_update = sequential_update self\<rparr>"
    using o deser c by (simp add: from_config_def Let_def)
  then show ?thesis using o s rest same by simp
qed


theorem config_round_trip_witness:
  "ex_deserialize (ex_serialize (optimizer (ex_wrapper False))) () = Inr (PyOptimizer ex_sgd)
   \<and> ex_serialize ex_sgd = ex_serialize (optimizer (ex_wrapper False))
   \<and> ex_super_init
        (case ex_super_get_config (ex_wrapper False) ''name'' of
           None \<Rightarrow> PyStr ''AverageOptimizer'' | Some v \<Rightarrow> v)
        (ex_super_get_config (ex_wrapper False)
           |` (- {''optimizer'', ''sequential_update'', ''name''}))
      = Inr (ex_keras ''AverageOptimizer'')
   \<and> get_config ex_serialize ex_super_get_config (ex_wrapper False) ''optimizer''
       = Some (PyDict [(''class_name'', PyStr ''SGD'')])
   \<and> get_config ex_serialize ex_super_get_config (ex_wrapper False) ''sequential_update''
       = Some (PyBool False)
   \<and> get_config ex_serialize ex_super_get_config (ex_wrapper False) ''name''
       = Some (PyStr ''AverageOptimizer'')
   \<and> (\<exists>w. snd (from_config ex_super_init ex_optimizers_get ex_deserialize
                   (get_config ex_serialize ex_super_get_config (ex_wrapper False)) ()) = Inr w
         \<and> ex_serialize (optimizer w) = ex_serialize (optimizer (ex_wrapper False))
         \<and> sequential_update w = False)"
proof -
  have d: "ex_deserialize (ex_serialize (optimizer (ex_wrapper False))) ()
             = Inr (PyOptimizer ex_sgd)"
    by (simp add: ex_deserialize_def ex_serialize_def)
  have e: "ex_serialize ex_sgd = ex_serialize (optimizer (ex_wrapper False))"
    by (simp add: ex_serialize_def)
  have n: "ex_super_get_config (ex_wrapper False) ''name'' = Some (PyStr ''AverageOptimizer'')"
    by (simp add: ex_super_get_config_def ex_wrapper_def)
  have i: "ex_super_init
        (case ex_super_get_config (ex_wrapper False) ''name'' of
           None \<Rightarrow> PyStr ''AverageOptimizer'' | Some v \<Rightarrow> v)
        (ex_super_get_config (ex_wrapper False)
           |` (- {''optimizer'', ''sequential_update'', ''name''}))
      = Inr (ex_keras ''AverageOptimizer'')"
    by (simp add: n ex_super_init_def)
  have f: "sequential_update (ex_wrapper False) = False"
    by (simp add: ex_wrapper_def)
  show ?thesis
    using d e i n f
      config_round_trip [where deserialize = ex_deserialize and serialize = ex_serialize
        and self = "ex_wrapper False" and custom_objects = "()" and opt' = ex_sgd
        and super_init = ex_super_init and super_get_config = ex_super_get_config
        and k = "ex_keras ''AverageOptimizer''" and optimizers_get = ex_optimizers_get]
    by (simp add: ex_serialize_def)
qed

end
